theory Spec2Isabelle
  imports Main "HOL-Library.Sublist"
begin

section \<open>Outgoing-transaction loading of the Safe front-end\<close>

text \<open>
  A shallow embedding of
  \<^verbatim>\<open>src/routes/safe/store/actions/transactions/fetchTransactions/loadOutgoingTransactions.js\<close>:
  the normalizer \<^verbatim>\<open>buildTransactionFrom\<close>, the batch code lookup
  \<^verbatim>\<open>batchTxTokenRequest\<close> and the fetch loop \<^verbatim>\<open>loadOutgoingTransactions\<close>.

  JavaScript numbers are modelled as mathematical integers (\<open>int\<close>); the two agree
  while every magnitude stays below \<open>2^53\<close>. A rejected promise or a thrown
  exception is the left injection of a sum, a resolved promise the right one.
\<close>

subsection \<open>Errors and JavaScript strings\<close>

datatype error =
    TypeError
  | TokenInfoError
  | BatchRequestError
  | DecodeError

text \<open>Truthiness of a value of Flow type \<^verbatim>\<open>?string\<close>: absent and empty strings are falsy.\<close>

definition truthy :: "string option \<Rightarrow> bool" where
  "truthy d = (case d of None \<Rightarrow> False | Some s \<Rightarrow> s \<noteq> [])"

definition digit_char :: "nat \<Rightarrow> char" where
  "digit_char n = ''0123456789'' ! (n mod 10)"

text \<open>\<^verbatim>\<open>Number.prototype.toString\<close> on an integer: decimal digits, most significant first.\<close>

fun digits :: "nat \<Rightarrow> string" where
  "digits n = (if n < 10 then [digit_char n] else digits (n div 10) @ [digit_char (n mod 10)])"

declare digits.simps [simp del]

definition number_toString :: "int \<Rightarrow> string" where
  "number_toString i = (if i < 0 then CHR ''-'' # digits (nat (- i)) else digits (nat i))"

text \<open>\<^verbatim>\<open>s.padStart(targetLength, 0)\<close>: the fill value \<open>0\<close> is converted to the string "0".\<close>

definition padStart :: "string \<Rightarrow> int \<Rightarrow> string" where
  "padStart s targetLength = replicate (nat (targetLength - int (length s))) CHR ''0'' @ s"

text \<open>
  \<^verbatim>\<open>String.prototype.slice\<close>: a negative index counts from the end, every index is
  clamped to the string, and an end before the start gives the empty string.
\<close>

definition slice_index :: "int \<Rightarrow> int \<Rightarrow> int" where
  "slice_index len i = (if i < 0 then max (len + i) 0 else min i len)"

definition slice :: "string \<Rightarrow> int \<Rightarrow> int \<Rightarrow> string" where
  "slice s start finish =
     (let len = int (length s);
          from_ix = slice_index len start;
          to_ix = slice_index len finish
      in take (nat (to_ix - from_ix)) (drop (nat from_ix) s))"

definition slice_from :: "string \<Rightarrow> int \<Rightarrow> string" where
  "slice_from s start = slice s start (int (length s))"

subsection \<open>Data model\<close>

record ConfirmationServiceModel =
  conf_owner :: string
  conf_submissionDate :: string
  conf_signature :: string
  conf_transactionHash :: string

record TxServiceModel =
  tx_to :: string
  tx_value :: int
  tx_data :: "string option"
  tx_operation :: int
  tx_nonce :: "int option"
  tx_blockNumber :: "int option"
  tx_safeTxGas :: int
  tx_baseGas :: int
  tx_gasPrice :: int
  tx_gasToken :: string
  tx_refundReceiver :: string
  tx_safeTxHash :: string
  tx_submissionDate :: "string option"
  tx_executor :: string
  tx_executionDate :: "string option"
  tx_confirmations :: "ConfirmationServiceModel list"
  tx_isExecuted :: bool
  tx_isSuccessful :: bool
  tx_transactionHash :: "string option"
  tx_creationTx :: "bool option"
  tx_origin :: "string option"

record Confirmation =
  owner :: string
  hash :: string
  signature :: string

record Token =
  token_symbol :: string
  token_decimals :: int

record RefundParams =
  fee :: string
  refund_symbol :: string

text \<open>
  \<^verbatim>\<open>decodedParams\<close> is either the pair decoded from a token transfer or whatever
  \<^verbatim>\<open>decodeParamsFromSafeMethod\<close> returns (an object, here its key/value pairs).
\<close>

datatype DecodedParams =
    TransferParams string string
  | SafeMethodParams "(string \<times> string) list"

record Transaction =
  symbol :: string
  nonce :: "int option"
  blockNumber :: "int option"
  value' :: string
  confirmations :: "Confirmation list"
  decimals :: int
  recipient :: string
  data :: string
  operation :: int
  safeTxGas :: int
  baseGas :: int
  gasPrice :: int
  gasToken :: string
  refundReceiver :: string
  refundParams :: "RefundParams option"
  isExecuted :: bool
  isSuccessful :: bool
  submissionDate :: "string option"
  executor :: string
  executionDate :: "string option"
  executionTxHash :: "string option"
  safeTxHash :: string
  isTokenTransfer :: bool
  multiSendTx :: bool
  upgradeTx :: bool
  decodedParams :: "DecodedParams option"
  modifySettingsTx :: bool
  customTx :: bool
  cancellationTx :: bool
  creationTx :: "bool option"
  origin :: "string option"

subsection \<open>Collaborators imported from outside the file\<close>

text \<open>
  The module imports its helpers, constants and network calls from other modules. They
  are parameters of the model: every theorem below holds for each behaviour they may
  have. A field that stands for an asynchronous call returns a sum: \<open>Inl\<close> when the
  promise rejects.
  \<^item> \<open>alternativeTokenInfo\<close> is the awaited
    \<^verbatim>\<open>Promise.all(generateBatchRequests({abi: ALTERNATIVE_TOKEN_ABI, address, methods: ['symbol', 'decimals']}))\<close>;
  \<^item> \<open>decodeParameters\<close> is \<^verbatim>\<open>web3ReadOnly.eth.abi.decodeParameters(['address', 'uint256'], _)\<close>;
  \<^item> \<open>getCode\<close> is the \<^verbatim>\<open>getCode\<close> request that \<^verbatim>\<open>generateBatchRequests\<close> adds to the batch.
\<close>

record env =
  sameAddress :: "string \<Rightarrow> string \<Rightarrow> bool"
  tokenHelpers_isTokenTransfer :: "string option \<Rightarrow> int \<Rightarrow> bool"
  isMultisendTransaction :: "string option \<Rightarrow> int \<Rightarrow> bool"
  isUpgradeTransaction :: "string option \<Rightarrow> bool"
  SAFE_TRANSFER_FROM_WITHOUT_DATA_HASH :: string
  ZERO_ADDRESS :: string
  EMPTY_DATA :: string
  getTokenInfos :: "string \<Rightarrow> error + Token"
  alternativeTokenInfo :: "string \<Rightarrow> error + (string \<times> int)"
  decodeParameters :: "string \<Rightarrow> error + (string \<times> string)"
  decodeParamsFromSafeMethod :: "string \<Rightarrow> error + (string \<times> string) list option"
  getCode :: "string \<Rightarrow> error + string option"
  addMockSafeCreationTx :: "string \<Rightarrow> TxServiceModel list"
  buildTxServiceUrl :: "string \<Rightarrow> string"

subsection \<open>The normalizer: \<^verbatim>\<open>buildTransactionFrom\<close>\<close>

text \<open>Lines 68-76: the confirmations are mapped one to one.\<close>

definition makeConfirmation :: "ConfirmationServiceModel \<Rightarrow> Confirmation" where
  "makeConfirmation conf =
     \<lparr>owner = conf_owner conf, hash = conf_transactionHash conf, signature = conf_signature conf\<rparr>"

text \<open>Lines 77-85: the provisional classification flags.\<close>

definition is_modifySettingsTx :: "env \<Rightarrow> string \<Rightarrow> TxServiceModel \<Rightarrow> bool" where
  "is_modifySettingsTx e safeAddress tx =
     (sameAddress e (tx_to tx) safeAddress \<and> tx_value tx = 0 \<and> truthy (tx_data tx))"

definition is_cancellationTx :: "env \<Rightarrow> string \<Rightarrow> TxServiceModel \<Rightarrow> bool" where
  "is_cancellationTx e safeAddress tx =
     (sameAddress e (tx_to tx) safeAddress \<and> tx_value tx = 0 \<and> \<not> truthy (tx_data tx))"

definition code_includes :: "string option \<Rightarrow> string \<Rightarrow> bool" where
  "code_includes code h = (case code of None \<Rightarrow> False | Some c \<Rightarrow> c \<noteq> [] \<and> sublist h c)"

definition isERC721Token :: "env \<Rightarrow> TxServiceModel \<Rightarrow> (string \<rightharpoonup> Token) \<Rightarrow> string option \<Rightarrow> bool" where
  "isERC721Token e tx knownTokens code =
     (if code_includes code (SAFE_TRANSFER_FROM_WITHOUT_DATA_HASH e) then True
      else tokenHelpers_isTokenTransfer e (tx_data tx) (tx_value tx) \<and> knownTokens (tx_to tx) = None)"

definition isSendTokenTx :: "env \<Rightarrow> TxServiceModel \<Rightarrow> (string \<rightharpoonup> Token) \<Rightarrow> string option \<Rightarrow> bool" where
  "isSendTokenTx e tx knownTokens code =
     (\<not> isERC721Token e tx knownTokens code \<and> tokenHelpers_isTokenTransfer e (tx_data tx) (tx_value tx))"

definition isMultiSendTx :: "env \<Rightarrow> TxServiceModel \<Rightarrow> bool" where
  "isMultiSendTx e tx = isMultisendTransaction e (tx_data tx) (tx_value tx)"

definition isUpgradeTx :: "env \<Rightarrow> TxServiceModel \<Rightarrow> bool" where
  "isUpgradeTx e tx = (isMultiSendTx e tx \<and> isUpgradeTransaction e (tx_data tx))"

definition is_customTx :: "env \<Rightarrow> string \<Rightarrow> TxServiceModel \<Rightarrow> (string \<rightharpoonup> Token) \<Rightarrow> string option \<Rightarrow> bool" where
  "is_customTx e safeAddress tx knownTokens code =
     (\<not> sameAddress e (tx_to tx) safeAddress \<and> truthy (tx_data tx)
      \<and> \<not> isSendTokenTx e tx knownTokens code \<and> \<not> isUpgradeTx e tx
      \<and> \<not> isERC721Token e tx knownTokens code)"

text \<open>Lines 96-100: the fee as a string with \<open>refundDecimals\<close> fractional digits.\<close>

definition feeValue :: "TxServiceModel \<Rightarrow> int" where
  "feeValue tx = tx_gasPrice tx * (tx_baseGas tx + tx_safeTxGas tx)"

definition formatFee :: "int \<Rightarrow> int \<Rightarrow> string" where
  "formatFee feeInt refundDecimals =
     (let feeString = padStart (number_toString feeInt) refundDecimals;
          w = slice feeString 0 (int (length feeString) - refundDecimals);
          whole = (if w = [] then ''0'' else w);
          fraction = slice_from feeString (int (length feeString) - refundDecimals)
      in whole @ ''.'' @ fraction)"

text \<open>Lines 89-95: symbol and decimals of the token the refund is paid in.\<close>

definition refundToken :: "env \<Rightarrow> TxServiceModel \<Rightarrow> error + (string \<times> int)" where
  "refundToken e tx =
     (if tx_gasToken tx \<noteq> ZERO_ADDRESS e then
        (case getTokenInfos e (tx_gasToken tx) of
           Inl err \<Rightarrow> Inl err
         | Inr gasTok \<Rightarrow> Inr (token_symbol gasTok, token_decimals gasTok))
      else Inr (''ETH'', 18))"

text \<open>Lines 87-105: the refund, present only when the gas price is positive.\<close>

definition refundOf :: "env \<Rightarrow> TxServiceModel \<Rightarrow> error + RefundParams option" where
  "refundOf e tx =
     (if tx_gasPrice tx > 0 then
        (case refundToken e tx of
           Inl err \<Rightarrow> Inl err
         | Inr (refundSymbol, refundDecimals) \<Rightarrow>
             Inr (Some \<lparr>fee = formatFee (feeValue tx) refundDecimals, refund_symbol = refundSymbol\<rparr>))
      else Inr None)"

text \<open>
  Lines 110-135: symbol and decimals of a provisional token transfer. The third component
  says whether the record stays a token transfer: both lookups failing clears it.
\<close>

definition tokenLookup :: "env \<Rightarrow> string \<Rightarrow> string \<times> int \<times> bool" where
  "tokenLookup e addr =
     (case getTokenInfos e addr of
        Inr token \<Rightarrow> (token_symbol token, token_decimals token, True)
      | Inl err1 \<Rightarrow>
          (case alternativeTokenInfo e addr of
             Inr (tokenSymbol, tokenDecimals) \<Rightarrow> (tokenSymbol, tokenDecimals, True)
           | Inl err2 \<Rightarrow> (''ETH'', 18, False)))"

text \<open>
  Lines 137-141: the transfer parameters, decoded from the call data after its first ten
  characters. \<^verbatim>\<open>tx.data.slice(10)\<close> on absent data is a TypeError.
\<close>

definition decodeTransfer :: "env \<Rightarrow> string option \<Rightarrow> error + DecodedParams" where
  "decodeTransfer e d =
     (case d of
        None \<Rightarrow> Inl TypeError
      | Some s \<Rightarrow>
          (case decodeParameters e (slice_from s 10) of
             Inl err \<Rightarrow> Inl err
           | Inr (p0, p1) \<Rightarrow> Inr (TransferParams p0 p1)))"

text \<open>Lines 142-146: the two branches that decode a Safe method call.\<close>

definition decodeSafeMethod :: "env \<Rightarrow> string option \<Rightarrow> error + DecodedParams option" where
  "decodeSafeMethod e d =
     (case d of
        None \<Rightarrow> Inr None
      | Some s \<Rightarrow>
          (case decodeParamsFromSafeMethod e s of
             Inl err \<Rightarrow> Inl err
           | Inr ps \<Rightarrow> Inr (map_option SafeMethodParams ps)))"

text \<open>Lines 148-180: the record handed to \<^verbatim>\<open>makeTransaction\<close>.\<close>

definition makeTransaction ::
  "env \<Rightarrow> string \<Rightarrow> TxServiceModel \<Rightarrow> (string \<rightharpoonup> Token) \<Rightarrow> string option \<Rightarrow> RefundParams option
     \<Rightarrow> string \<Rightarrow> int \<Rightarrow> bool \<Rightarrow> bool \<Rightarrow> DecodedParams option \<Rightarrow> Transaction" where
  "makeTransaction e safeAddress tx knownTokens code refund tokSymbol tokDecimals sendToken custom decoded =
     \<lparr>symbol = tokSymbol,
      nonce = tx_nonce tx,
      blockNumber = tx_blockNumber tx,
      value' = number_toString (tx_value tx),
      confirmations = map makeConfirmation (tx_confirmations tx),
      decimals = tokDecimals,
      recipient = tx_to tx,
      data = (case tx_data tx of None \<Rightarrow> EMPTY_DATA e | Some s \<Rightarrow> if s = [] then EMPTY_DATA e else s),
      operation = tx_operation tx,
      safeTxGas = tx_safeTxGas tx,
      baseGas = tx_baseGas tx,
      gasPrice = tx_gasPrice tx,
      gasToken = (if tx_gasToken tx = [] then ZERO_ADDRESS e else tx_gasToken tx),
      refundReceiver = (if tx_refundReceiver tx = [] then ZERO_ADDRESS e else tx_refundReceiver tx),
      refundParams = refund,
      isExecuted = tx_isExecuted tx,
      isSuccessful = tx_isSuccessful tx,
      submissionDate = tx_submissionDate tx,
      executor = tx_executor tx,
      executionDate = tx_executionDate tx,
      executionTxHash = tx_transactionHash tx,
      safeTxHash = tx_safeTxHash tx,
      isTokenTransfer = sendToken,
      multiSendTx = isMultiSendTx e tx,
      upgradeTx = isUpgradeTx e tx,
      decodedParams = decoded,
      modifySettingsTx = is_modifySettingsTx e safeAddress tx,
      customTx = custom,
      cancellationTx = is_cancellationTx e safeAddress tx,
      creationTx = tx_creationTx tx,
      origin = tx_origin tx\<rparr>"

definition buildTransactionFrom ::
  "env \<Rightarrow> string \<Rightarrow> TxServiceModel \<Rightarrow> (string \<rightharpoonup> Token) \<Rightarrow> string option \<Rightarrow> error + Transaction" where
  "buildTransactionFrom e safeAddress tx knownTokens code =
     (case refundOf e tx of
        Inl err \<Rightarrow> Inl err
      | Inr refund \<Rightarrow>
          (if isSendTokenTx e tx knownTokens code then
             (case tokenLookup e (tx_to tx) of
                (tokSymbol, tokDecimals, resolved) \<Rightarrow>
                  (case decodeTransfer e (tx_data tx) of
                     Inl err \<Rightarrow> Inl err
                   | Inr params \<Rightarrow>
                       Inr (makeTransaction e safeAddress tx knownTokens code refund tokSymbol tokDecimals
                              resolved
                              (if resolved then is_customTx e safeAddress tx knownTokens code else True)
                              (Some params))))
           else if is_modifySettingsTx e safeAddress tx \<and> truthy (tx_data tx) then
             (case decodeSafeMethod e (tx_data tx) of
                Inl err \<Rightarrow> Inl err
              | Inr decoded \<Rightarrow>
                  Inr (makeTransaction e safeAddress tx knownTokens code refund ''ETH'' 18 False
                         (is_customTx e safeAddress tx knownTokens code) decoded))
           else if is_customTx e safeAddress tx knownTokens code \<and> truthy (tx_data tx) then
             (case decodeSafeMethod e (tx_data tx) of
                Inl err \<Rightarrow> Inl err
              | Inr decoded \<Rightarrow>
                  Inr (makeTransaction e safeAddress tx knownTokens code refund ''ETH'' 18 False
                         (is_customTx e safeAddress tx knownTokens code) decoded))
           else
             Inr (makeTransaction e safeAddress tx knownTokens code refund ''ETH'' 18 False
                    (is_customTx e safeAddress tx knownTokens code) None)))"

subsection \<open>The fetch loop: \<^verbatim>\<open>loadOutgoingTransactions\<close>\<close>

text \<open>
  \<^verbatim>\<open>Promise.all\<close>: the results in the order of the promises, whatever the order they
  settle in, or a rejection when one of them rejects (here the first in list order).
\<close>

fun promise_all :: "(error + 'a) list \<Rightarrow> error + 'a list" where
  "promise_all [] = Inr []"
| "promise_all (p # ps) =
     (case p of
        Inl err \<Rightarrow> Inl err
      | Inr v \<Rightarrow> (case promise_all ps of Inl err \<Rightarrow> Inl err | Inr vs \<Rightarrow> Inr (v # vs)))"

text \<open>Lines 183-200: one \<^verbatim>\<open>getCode\<close> request per transaction, the transaction as context.\<close>

definition codeRequest :: "env \<Rightarrow> TxServiceModel \<Rightarrow> error + (TxServiceModel \<times> string option)" where
  "codeRequest e tx = (case getCode e (tx_to tx) of Inl err \<Rightarrow> Inl err | Inr code \<Rightarrow> Inr (tx, code))"

definition batchTxTokenRequest :: "env \<Rightarrow> TxServiceModel list \<Rightarrow> error + (TxServiceModel \<times> string option) list" where
  "batchTxTokenRequest e txs = promise_all (map (codeRequest e) txs)"

text \<open>
  \<^verbatim>\<open>List.groupBy\<close> of the immutable collections: the elements are visited in order,
  each appended to the group of its key; a key seen for the first time opens a group.
  \<^verbatim>\<open>get\<close> on the result is \<open>map_of\<close>: \<open>None\<close> is \<^verbatim>\<open>undefined\<close>.
\<close>

fun group_add :: "'k \<Rightarrow> 'a \<Rightarrow> ('k \<times> 'a list) list \<Rightarrow> ('k \<times> 'a list) list" where
  "group_add k x [] = [(k, [x])]"
| "group_add k x ((k', xs) # gs) =
     (if k' = k then (k', xs @ [x]) # gs else (k', xs) # group_add k x gs)"

definition groupBy :: "('a \<Rightarrow> 'k) \<Rightarrow> 'a list \<Rightarrow> ('k \<times> 'a list) list" where
  "groupBy f xs = fold (\<lambda>x gs. group_add (f x) x gs) xs []"

record SafeTransactionsType =
  outgoing :: "string \<rightharpoonup> Transaction list option"
  cancel :: "string \<rightharpoonup> Transaction list option"

text \<open>Lines 246-251: the two groups, each stored under the one key \<open>safeAddress\<close>.\<close>

definition groupKey :: "Transaction \<Rightarrow> string" where
  "groupKey tx = (if cancellationTx tx then ''cancel'' else ''outgoing'')"

definition groupTxs :: "string \<Rightarrow> Transaction list \<Rightarrow> SafeTransactionsType" where
  "groupTxs safeAddress txsRecord =
     (let groupedTxs = groupBy groupKey txsRecord
      in \<lparr>outgoing = Map.empty(safeAddress \<mapsto> map_of groupedTxs ''outgoing''),
          cancel = Map.empty(safeAddress \<mapsto> map_of groupedTxs ''cancel'')\<rparr>)"

text \<open>
  The module variable \<^verbatim>\<open>prevSaveTransactionsEtag\<close> starts as \<^verbatim>\<open>null\<close> and later holds
  \<^verbatim>\<open>response.headers.etag\<close>, a string or \<^verbatim>\<open>undefined\<close>; \<^verbatim>\<open>===\<close> is equality of
  these values.
\<close>

datatype js_etag = JNull | JUndefined | JString string

definition header_etag :: "string option \<Rightarrow> js_etag" where
  "header_etag h = (case h of None \<Rightarrow> JUndefined | Some s \<Rightarrow> JString s)"

definition etag_truthy :: "js_etag \<Rightarrow> bool" where
  "etag_truthy t = (case t of JString s \<Rightarrow> s \<noteq> [] | _ \<Rightarrow> False)"

text \<open>
  What \<^verbatim>\<open>axios.get\<close> settles to: a response with \<^verbatim>\<open>data.count\<close>,
  \<^verbatim>\<open>data.results\<close> and \<^verbatim>\<open>headers.etag\<close>, or an error with
  \<^verbatim>\<open>err.response.status\<close> where there is one.
\<close>

datatype http_outcome =
    Response int "TxServiceModel list" "string option"
  | RequestError "int option"

text \<open>The effects a call performs, in order.\<close>

datatype event =
    HttpGet string "js_etag option"
  | ConsoleError string
  | BatchExecute "string list"
  | BuildTransaction TxServiceModel

record call_result =
  etag_after :: js_etag
  trace :: "event list"
  returned :: "error + SafeTransactionsType option"

text \<open>
  Lines 207-236: the seed list and the \<^verbatim>\<open>try\<close> block. It either returns at once or
  leaves the value of \<^verbatim>\<open>prevSaveTransactionsEtag\<close>, what it logged and the list
  \<^verbatim>\<open>transactions\<close> to go on with.
\<close>

datatype fetched =
    NotModified
  | Proceed js_etag "event list" "TxServiceModel list"

definition logMessage :: "string \<Rightarrow> string" where
  "logMessage safeAddress =
     ''Requests for outgoing transactions for '' @ safeAddress @ '' failed with 404''"

definition fetchHistory :: "env \<Rightarrow> js_etag \<Rightarrow> string \<Rightarrow> http_outcome \<Rightarrow> fetched" where
  "fetchHistory e prev safeAddress http =
     (let transactions = addMockSafeCreationTx e safeAddress
      in case http of
           Response count results etag \<Rightarrow>
             (if count > 0 then
                (if prev = header_etag etag then NotModified
                 else Proceed (header_etag etag) [] (transactions @ results))
              else Proceed prev [] transactions)
         | RequestError status \<Rightarrow>
             (if status = Some 304 then NotModified
              else Proceed prev [ConsoleError (logMessage safeAddress)] transactions))"

text \<open>Lines 238-244: the code lookup and the normalization of every collected record.\<close>

definition normalizeAll ::
  "env \<Rightarrow> string \<Rightarrow> (string \<rightharpoonup> Token) \<Rightarrow> (TxServiceModel \<times> string option) list \<Rightarrow> error + Transaction list" where
  "normalizeAll e safeAddress knownTokens txsWithData =
     promise_all (map (\<lambda>(tx, code). buildTransactionFrom e safeAddress tx knownTokens code) txsWithData)"

definition normalizeTransactions ::
  "env \<Rightarrow> string \<Rightarrow> (string \<rightharpoonup> Token) \<Rightarrow> TxServiceModel list
     \<Rightarrow> event list \<times> (error + Transaction list)" where
  "normalizeTransactions e safeAddress knownTokens transactions =
     (case batchTxTokenRequest e transactions of
        Inl err \<Rightarrow> ([BatchExecute (map tx_to transactions)], Inl err)
      | Inr txsWithData \<Rightarrow>
          (BatchExecute (map tx_to transactions) # map BuildTransaction (map fst txsWithData),
           normalizeAll e safeAddress knownTokens txsWithData))"

text \<open>
  Lines 203-252. \<open>prev\<close> is \<^verbatim>\<open>prevSaveTransactionsEtag\<close> when the call starts,
  \<open>knownTokens\<close> is \<^verbatim>\<open>getState()[TOKEN_REDUCER_ID]\<close>, \<open>http\<close> is what the request
  settles to. \<open>Inr None\<close> is the bare \<^verbatim>\<open>return\<close>, the value \<^verbatim>\<open>undefined\<close>.
\<close>

definition loadOutgoingTransactions ::
  "env \<Rightarrow> js_etag \<Rightarrow> string \<Rightarrow> (string \<rightharpoonup> Token) \<Rightarrow> http_outcome \<Rightarrow> call_result" where
  "loadOutgoingTransactions e prev safeAddress knownTokens http =
     (let config = (if etag_truthy prev then Some prev else None);
          request = HttpGet (buildTxServiceUrl e safeAddress) config
      in case fetchHistory e prev safeAddress http of
           NotModified \<Rightarrow> \<lparr>etag_after = prev, trace = [request], returned = Inr None\<rparr>
         | Proceed etag logged transactions \<Rightarrow>
             (case normalizeTransactions e safeAddress knownTokens transactions of
                (events, Inl err) \<Rightarrow>
                  \<lparr>etag_after = etag, trace = request # logged @ events, returned = Inl err\<rparr>
              | (events, Inr txsRecord) \<Rightarrow>
                  \<lparr>etag_after = etag, trace = request # logged @ events,
                   returned = Inr (Some (groupTxs safeAddress txsRecord))\<rparr>))"

subsection \<open>The fee as the specification words it\<close>



subsection \<open>A concrete set of collaborators\<close>

text \<open>
  Modelled from the spec: the helpers of \<^verbatim>\<open>tokenHelpers\<close>, \<^verbatim>\<open>ethAddresses\<close>,
  \<^verbatim>\<open>methodIds\<close>, \<^verbatim>\<open>fetchTokens\<close>, \<^verbatim>\<open>generateBatchRequests\<close> and
  \<^verbatim>\<open>addMockSafeCreationTx\<close> are not in the sources at hand. This instance follows
  sections 4.3 and 6 of the specification (a token transfer and a multi-send are
  recognised by the selector at the head of the call data together with a zero value; the
  registry knows some tokens and fails on the others) and serves to run the model on
  concrete inputs. The general theorems do not depend on it.
\<close>

definition has_selector :: "string \<Rightarrow> string option \<Rightarrow> bool" where
  "has_selector sel d = (case d of None \<Rightarrow> False | Some s \<Rightarrow> s \<noteq> [] \<and> take 10 s = sel)"

definition creation_record :: "string \<Rightarrow> TxServiceModel" where
  "creation_record safeAddress =
     \<lparr>tx_to = [], tx_value = 0, tx_data = None, tx_operation = 0, tx_nonce = None,
      tx_blockNumber = None, tx_safeTxGas = 0, tx_baseGas = 0, tx_gasPrice = 0,
      tx_gasToken = ''0x0000000000000000000000000000000000000000'',
      tx_refundReceiver = ''0x0000000000000000000000000000000000000000'',
      tx_safeTxHash = [], tx_submissionDate = None, tx_executor = [],
      tx_executionDate = None, tx_confirmations = [], tx_isExecuted = True,
      tx_isSuccessful = True, tx_transactionHash = None, tx_creationTx = Some True,
      tx_origin = None\<rparr>"

definition sample_env :: env where
  "sample_env =
     \<lparr>sameAddress = (\<lambda>a b. a = b),
      tokenHelpers_isTokenTransfer = (\<lambda>d v. has_selector ''0xa9059cbb'' d \<and> v = 0),
      isMultisendTransaction = (\<lambda>d v. has_selector ''0x8d80ff0a'' d \<and> v = 0),
      isUpgradeTransaction =
        (\<lambda>d. case d of None \<Rightarrow> False
             | Some s \<Rightarrow> take 8 (drop 308 s) = ''7de7edef'' \<and> take 8 (drop 550 s) = ''f08a0323''),
      SAFE_TRANSFER_FROM_WITHOUT_DATA_HASH = ''42842e0e'',
      ZERO_ADDRESS = ''0x0000000000000000000000000000000000000000'',
      EMPTY_DATA = ''0x'',
      getTokenInfos =
        (\<lambda>a. if a = ''0xDai'' then Inr \<lparr>token_symbol = ''DAI'', token_decimals = 18\<rparr>
             else if a = ''0xCent'' then Inr \<lparr>token_symbol = ''CENT'', token_decimals = 2\<rparr>
             else Inl TokenInfoError),
      alternativeTokenInfo = (\<lambda>a. if a = ''0xAlt'' then Inr (''ALT'', 6) else Inl BatchRequestError),
      decodeParameters = (\<lambda>s. if s = [] then Inl DecodeError else Inr (take 4 s, drop 4 s)),
      decodeParamsFromSafeMethod = (\<lambda>s. Inr (Some [(''method'', take 10 s)])),
      getCode = (\<lambda>a. if a = ''0xDown'' then Inl BatchRequestError else Inr (Some ''0x'')),
      addMockSafeCreationTx = (\<lambda>safeAddress. [creation_record safeAddress]),
      buildTxServiceUrl = (\<lambda>safeAddress. ''/safes/'' @ safeAddress @ ''/transactions/'')\<rparr>"

definition sample_tokens :: "string \<rightharpoonup> Token" where
  "sample_tokens =
     [''0xDai'' \<mapsto> \<lparr>token_symbol = ''DAI'', token_decimals = 18\<rparr>,
      ''0xAlt'' \<mapsto> \<lparr>token_symbol = ''ALT'', token_decimals = 6\<rparr>,
      ''0xFake'' \<mapsto> \<lparr>token_symbol = ''FAKE'', token_decimals = 0\<rparr>]"

text \<open>Raw records of the history service, built on a plain transfer of one unit to another account.\<close>

definition plain_transfer :: TxServiceModel where
  "plain_transfer =
     \<lparr>tx_to = ''0xBob'', tx_value = 1, tx_data = None, tx_operation = 0, tx_nonce = Some 7,
      tx_blockNumber = Some 100, tx_safeTxGas = 0, tx_baseGas = 0, tx_gasPrice = 0,
      tx_gasToken = ''0x0000000000000000000000000000000000000000'',
      tx_refundReceiver = ''0x0000000000000000000000000000000000000000'',
      tx_safeTxHash = ''0xhash'', tx_submissionDate = None, tx_executor = ''0xOwner'',
      tx_executionDate = None, tx_confirmations = [], tx_isExecuted = True,
      tx_isSuccessful = True, tx_transactionHash = Some ''0xtx'', tx_creationTx = None,
      tx_origin = None\<rparr>"

definition transfer_call :: string where
  "transfer_call = ''0xa9059cbb0b0b0064''"

definition multisend_call :: string where
  "multisend_call = ''0x8d80ff0a0001''"

definition token_transfer_to :: "string \<Rightarrow> TxServiceModel" where
  "token_transfer_to token = plain_transfer\<lparr>tx_to := token, tx_value := 0, tx_data := Some transfer_call\<rparr>"

definition multisend_tx :: TxServiceModel where
  "multisend_tx = plain_transfer\<lparr>tx_to := ''0xMulti'', tx_value := 0, tx_data := Some multisend_call\<rparr>"

definition cancel_tx :: TxServiceModel where
  "cancel_tx = plain_transfer\<lparr>tx_to := ''0xSafe'', tx_value := 0, tx_data := None\<rparr>"

definition refund_tx :: TxServiceModel where
  "refund_tx = plain_transfer\<lparr>tx_gasPrice := 2, tx_baseGas := 3, tx_safeTxGas := 4, tx_gasToken := ''0xCent''\<rparr>"

text \<open>A history of three records and what the sample collaborators normalize them to.\<close>

definition sample_history :: "TxServiceModel list" where
  "sample_history = [plain_transfer, cancel_tx, multisend_tx]"

definition seed_record :: Transaction where
  "seed_record =
     makeTransaction sample_env ''0xSafe'' (creation_record ''0xSafe'') sample_tokens (Some ''0x'')
       None ''ETH'' 18 False False None"

definition plain_record :: Transaction where
  "plain_record =
     makeTransaction sample_env ''0xSafe'' plain_transfer sample_tokens (Some ''0x'')
       None ''ETH'' 18 False False None"

definition cancel_record :: Transaction where
  "cancel_record =
     makeTransaction sample_env ''0xSafe'' cancel_tx sample_tokens (Some ''0x'')
       None ''ETH'' 18 False False None"

definition multisend_record :: Transaction where
  "multisend_record =
     makeTransaction sample_env ''0xSafe'' multisend_tx sample_tokens (Some ''0x'')
       None ''ETH'' 18 False True (Some (SafeMethodParams [(''method'', ''0x8d80ff0a'')]))"


text \<open>
  Modelled from the spec: \<^verbatim>\<open>addMockSafeCreationTx\<close> is not in the sources at
  hand. The specification calls what it returns a synthetic genesis record representing
  wallet creation, one record, found in the outgoing group. Here: a single record flagged
  \<open>creationTx\<close>, without call data (which no helper reads as a token transfer), without
  a gas price (so no refund token is looked up) and not addressed to the wallet itself.
\<close>

definition creation_seed :: "env \<Rightarrow> string \<Rightarrow> TxServiceModel \<Rightarrow> bool" where
  "creation_seed e safeAddress g =
     (addMockSafeCreationTx e safeAddress = [g] \<and> tx_creationTx g = Some True
      \<and> tx_data g = None \<and> tx_gasPrice g = 0
      \<and> \<not> sameAddress e (tx_to g) safeAddress
      \<and> \<not> tokenHelpers_isTokenTransfer e None (tx_value g))"


section \<open>Properties\<close>

subsection \<open>Unfolding and evaluation rules\<close>

lemmas model_simps =
  buildTransactionFrom_def refundOf_def refundToken_def tokenLookup_def decodeTransfer_def
  decodeSafeMethod_def isSendTokenTx_def isERC721Token_def isMultiSendTx_def isUpgradeTx_def
  is_customTx_def is_modifySettingsTx_def is_cancellationTx_def code_includes_def truthy_def
  slice_from_def slice_def slice_index_def

lemmas sample_simps =
  sample_env_def sample_tokens_def plain_transfer_def token_transfer_to_def multisend_tx_def
  cancel_tx_def refund_tx_def transfer_call_def multisend_call_def has_selector_def
  creation_record_def sublist_code(3)

subsection \<open>What a returned record copies from the classification\<close>

lemma build_fields:
  assumes "buildTransactionFrom e safe tx kt code = Inr r"
  shows "modifySettingsTx r = is_modifySettingsTx e safe tx"
    and "cancellationTx r = is_cancellationTx e safe tx"
    and "multiSendTx r = isMultiSendTx e tx"
    and "upgradeTx r = isUpgradeTx e tx"
    and "creationTx r = tx_creationTx tx"
    and "refundOf e tx = Inr (refundParams r)"
  using assms
  by (auto simp: buildTransactionFrom_def makeTransaction_def
      split: sum.splits if_splits prod.splits)


subsection \<open>The sample records, normalized\<close>



lemma build_fake_token:
  "buildTransactionFrom sample_env ''0xSafe'' (token_transfer_to ''0xFake'') sample_tokens (Some ''0x6080'') =
     Inr (makeTransaction sample_env ''0xSafe'' (token_transfer_to ''0xFake'') sample_tokens (Some ''0x6080'')
            None ''ETH'' 18 False True (Some (TransferParams ''0b0b'' ''0064'')))"
  by (simp add: model_simps sample_simps)

lemma build_alt_token:
  "buildTransactionFrom sample_env ''0xSafe'' (token_transfer_to ''0xAlt'') sample_tokens (Some ''0x6080'') =
     Inr (makeTransaction sample_env ''0xSafe'' (token_transfer_to ''0xAlt'') sample_tokens (Some ''0x6080'')
            None ''ALT'' 6 True False (Some (TransferParams ''0b0b'' ''0064'')))"
  by (simp add: model_simps sample_simps)

subsection \<open>C1: the classification flags\<close>




subsection \<open>C2: both token lookups fail\<close>

text \<open>
  C2, evaluated on the code: a call with the transfer selector to \<open>0xFake\<close>, an address the
  registry knows but neither lookup resolves. The record comes back with
  \<open>isTokenTransfer\<close> false and \<open>customTx\<close> true, as the claim says, but its
  \<open>decodedParams\<close> are still the (recipient, value) pair of a token transfer: the
  decoding at lines 137-141 stands inside the token branch, after the \<^verbatim>\<open>catch\<close> that
  demotes the record, and the branch of line 144 that decodes a custom call is never
  reached. The last conjunct is what the custom-call decode of the same data gives.
\<close>

theorem demoted_transfer_keeps_transfer_params:
  "isSendTokenTx sample_env (token_transfer_to ''0xFake'') sample_tokens (Some ''0x6080'')
   \<and> getTokenInfos sample_env ''0xFake'' = Inl TokenInfoError
   \<and> alternativeTokenInfo sample_env ''0xFake'' = Inl BatchRequestError
   \<and> map_sum id isTokenTransfer
       (buildTransactionFrom sample_env ''0xSafe'' (token_transfer_to ''0xFake'') sample_tokens (Some ''0x6080''))
       = Inr False
   \<and> map_sum id customTx
       (buildTransactionFrom sample_env ''0xSafe'' (token_transfer_to ''0xFake'') sample_tokens (Some ''0x6080''))
       = Inr True
   \<and> map_sum id decodedParams
       (buildTransactionFrom sample_env ''0xSafe'' (token_transfer_to ''0xFake'') sample_tokens (Some ''0x6080''))
       = Inr (Some (TransferParams ''0b0b'' ''0064''))
   \<and> decodeSafeMethod sample_env (tx_data (token_transfer_to ''0xFake''))
       = Inr (Some (SafeMethodParams [(''method'', ''0xa9059cbb'')]))"
  by (simp add: build_fake_token makeTransaction_def model_simps sample_simps)

subsection \<open>C4: the secondary token lookup\<close>

text \<open>
  C4: for a record provisionally classified as a token transfer whose primary lookup
  (\<open>getTokenInfos\<close>) fails and whose secondary lookup (symbol and decimals through the
  alternative interface) succeeds, the returned record still has \<open>isTokenTransfer\<close> true
  and carries the symbol and the decimals of the secondary lookup.
\<close>

theorem secondary_lookup_keeps_token_transfer:
  assumes "isSendTokenTx e tx kt code"
      and "getTokenInfos e (tx_to tx) = Inl err"
      and "alternativeTokenInfo e (tx_to tx) = Inr (tokenSymbol, tokenDecimals)"
      and "buildTransactionFrom e safe tx kt code = Inr r"
  shows "isTokenTransfer r \<and> symbol r = tokenSymbol \<and> decimals r = tokenDecimals"
  using assms
  by (auto simp: buildTransactionFrom_def tokenLookup_def makeTransaction_def split: sum.splits)

theorem secondary_lookup_keeps_token_transfer_witness:
  "isSendTokenTx sample_env (token_transfer_to ''0xAlt'') sample_tokens (Some ''0x6080'')
   \<and> getTokenInfos sample_env (tx_to (token_transfer_to ''0xAlt'')) = Inl TokenInfoError
   \<and> alternativeTokenInfo sample_env (tx_to (token_transfer_to ''0xAlt'')) = Inr (''ALT'', 6)
   \<and> buildTransactionFrom sample_env ''0xSafe'' (token_transfer_to ''0xAlt'') sample_tokens (Some ''0x6080'') =
       Inr (makeTransaction sample_env ''0xSafe'' (token_transfer_to ''0xAlt'') sample_tokens (Some ''0x6080'')
            None ''ALT'' 6 True False (Some (TransferParams ''0b0b'' ''0064'')))
   \<and> isTokenTransfer (makeTransaction sample_env ''0xSafe'' (token_transfer_to ''0xAlt'') sample_tokens (Some ''0x6080'')
            None ''ALT'' 6 True False (Some (TransferParams ''0b0b'' ''0064'')))
   \<and> symbol (makeTransaction sample_env ''0xSafe'' (token_transfer_to ''0xAlt'') sample_tokens (Some ''0x6080'')
            None ''ALT'' 6 True False (Some (TransferParams ''0b0b'' ''0064''))) = ''ALT''
   \<and> decimals (makeTransaction sample_env ''0xSafe'' (token_transfer_to ''0xAlt'') sample_tokens (Some ''0x6080'')
            None ''ALT'' 6 True False (Some (TransferParams ''0b0b'' ''0064''))) = 6"
proof -
  have h1: "isSendTokenTx sample_env (token_transfer_to ''0xAlt'') sample_tokens (Some ''0x6080'')"
    by (simp add: model_simps sample_simps)
  have h2: "getTokenInfos sample_env (tx_to (token_transfer_to ''0xAlt'')) = Inl TokenInfoError"
    by (simp add: sample_simps)
  have h3: "alternativeTokenInfo sample_env (tx_to (token_transfer_to ''0xAlt'')) = Inr (''ALT'', 6)"
    by (simp add: sample_simps)
  show ?thesis
    using secondary_lookup_keeps_token_transfer [OF h1 h2 h3 build_alt_token] h1 h2 h3 build_alt_token
    by simp
qed

subsection \<open>Lemmas on the fetch loop\<close>

lemma promise_all_Inr: "promise_all ps = Inr vs \<Longrightarrow> ps = map Inr vs"
  by (induction ps arbitrary: vs) (auto split: sum.splits)

lemma batch_Inr:
  assumes "batchTxTokenRequest e txs = Inr twd"
  shows "map fst twd = txs \<and> list_all2 (\<lambda>tx p. getCode e (tx_to tx) = Inr (snd p)) txs twd"
  using assms unfolding batchTxTokenRequest_def
proof (induction txs arbitrary: twd)
  case Nil
  then show ?case by simp
next
  case (Cons tx txs)
  then show ?case
    by (auto simp: codeRequest_def split: sum.splits)
qed

lemma normalizeAll_Inr:
  assumes "normalizeAll e safe kt twd = Inr recs"
  shows "list_all2 (\<lambda>p r. buildTransactionFrom e safe (fst p) kt (snd p) = Inr r) twd recs"
  using assms unfolding normalizeAll_def
proof (induction twd arbitrary: recs)
  case Nil
  then show ?case by simp
next
  case (Cons p twd)
  then show ?case
    by (auto split: sum.splits prod.splits)
qed

lemma normalizeTransactions_Inr:
  assumes "snd (normalizeTransactions e safe kt txs) = Inr recs"
  shows "list_all2 (\<lambda>tx r. \<exists>code. getCode e (tx_to tx) = Inr code
            \<and> buildTransactionFrom e safe tx kt code = Inr r) txs recs"
proof -
  from assms obtain twd where b: "batchTxTokenRequest e txs = Inr twd"
    and n: "normalizeAll e safe kt twd = Inr recs"
    by (auto simp: normalizeTransactions_def split: sum.splits)
  from batch_Inr[OF b] have f: "map fst twd = txs"
    and c: "list_all2 (\<lambda>tx p. getCode e (tx_to tx) = Inr (snd p)) txs twd" by auto
  from normalizeAll_Inr[OF n]
  have r: "list_all2 (\<lambda>p r. buildTransactionFrom e safe (fst p) kt (snd p) = Inr r) twd recs" .
  have len: "length txs = length twd" "length twd = length recs"
    using c r by (auto dest: list_all2_lengthD)
  show ?thesis
  proof (rule list_all2_all_nthI)
    show "length txs = length recs" using len by simp
  next
    fix n assume "n < length txs"
    then have n1: "n < length twd" and n2: "n < length recs" using len by auto
    have "getCode e (tx_to (txs ! n)) = Inr (snd (twd ! n))"
      using c n1 \<open>n < length txs\<close> by (auto dest: list_all2_nthD)
    moreover have "buildTransactionFrom e safe (fst (twd ! n)) kt (snd (twd ! n)) = Inr (recs ! n)"
      using r n1 by (auto dest: list_all2_nthD)
    moreover have "fst (twd ! n) = txs ! n"
      using f n1 by (metis nth_map)
    ultimately show "\<exists>code. getCode e (tx_to (txs ! n)) = Inr code
        \<and> buildTransactionFrom e safe (txs ! n) kt code = Inr (recs ! n)"
      by auto
  qed
qed

lemma map_of_group_add:
  "map_of (group_add k x gs) k' =
     (if k' = k then Some (case map_of gs k of None \<Rightarrow> [x] | Some ys \<Rightarrow> ys @ [x])
      else map_of gs k')"
  by (induction gs) auto

lemma map_of_fold_group_add:
  "map_of (fold (\<lambda>x gs. group_add (f x) x gs) xs gs) k =
     (case map_of gs k of
        None \<Rightarrow> (if filter (\<lambda>x. f x = k) xs = [] then None else Some (filter (\<lambda>x. f x = k) xs))
      | Some zs \<Rightarrow> Some (zs @ filter (\<lambda>x. f x = k) xs))"
  by (induction xs arbitrary: gs) (auto simp: map_of_group_add split: option.splits)

lemma groupBy_get:
  "map_of (groupBy f xs) k =
     (if filter (\<lambda>x. f x = k) xs = [] then None else Some (filter (\<lambda>x. f x = k) xs))"
  by (simp add: groupBy_def map_of_fold_group_add)

lemma groupTxs_cancel:
  "cancel (groupTxs safe recs) safe =
     Some (if filter cancellationTx recs = [] then None else Some (filter cancellationTx recs))"
proof -
  have "(\<lambda>x. groupKey x = ''cancel'') = cancellationTx"
    by (auto simp: groupKey_def fun_eq_iff)
  then show ?thesis
    by (simp add: groupTxs_def Let_def groupBy_get)
qed

lemma groupTxs_outgoing:
  "outgoing (groupTxs safe recs) safe =
     Some (if filter (\<lambda>r. \<not> cancellationTx r) recs = [] then None
           else Some (filter (\<lambda>r. \<not> cancellationTx r) recs))"
proof -
  have "(\<lambda>x. groupKey x = ''outgoing'') = (\<lambda>r. \<not> cancellationTx r)"
    by (auto simp: groupKey_def fun_eq_iff)
  then show ?thesis
    by (simp add: groupTxs_def Let_def groupBy_get)
qed

lemma groupTxs_dom:
  "dom (outgoing (groupTxs safe recs)) = {safe}" "dom (cancel (groupTxs safe recs)) = {safe}"
  by (simp_all add: groupTxs_def Let_def)

lemma load_proceed:
  assumes "fetchHistory e prev safe http = Proceed etag logged transactions"
      and "snd (normalizeTransactions e safe kt transactions) = Inr recs"
  shows "loadOutgoingTransactions e prev safe kt http =
           \<lparr>etag_after = etag,
            trace = HttpGet (buildTxServiceUrl e safe) (if etag_truthy prev then Some prev else None)
                      # logged @ fst (normalizeTransactions e safe kt transactions),
            returned = Inr (Some (groupTxs safe recs))\<rparr>"
  using assms
  by (auto simp: loadOutgoingTransactions_def Let_def split: prod.splits sum.splits)

lemma build_without_data:
  assumes "tx_data g = None" and "tx_gasPrice g = 0"
      and "\<not> tokenHelpers_isTokenTransfer e None (tx_value g)"
  shows "buildTransactionFrom e safe g kt code =
           Inr (makeTransaction e safe g kt code None ''ETH'' 18 False False None)"
  using assms by (simp add: model_simps)

lemma build_seed:
  assumes "creation_seed e safe g"
  shows "buildTransactionFrom e safe g kt code =
           Inr (makeTransaction e safe g kt code None ''ETH'' 18 False False None)"
  using assms by (intro build_without_data) (simp_all add: creation_seed_def)

lemma normalize_single:
  assumes "tx_data g = None" and "tx_gasPrice g = 0"
      and "\<not> tokenHelpers_isTokenTransfer e None (tx_value g)"
      and "getCode e (tx_to g) = Inr code"
  shows "normalizeTransactions e safe kt [g] =
           ([BatchExecute [tx_to g], BuildTransaction g],
            Inr [makeTransaction e safe g kt code None ''ETH'' 18 False False None])"
  using assms(4) build_without_data [OF assms(1-3)]
  by (simp add: normalizeTransactions_def batchTxTokenRequest_def codeRequest_def normalizeAll_def)

lemma normalize_seed:
  assumes "creation_seed e safe g" and "getCode e (tx_to g) = Inr code"
  shows "normalizeTransactions e safe kt (addMockSafeCreationTx e safe) =
           ([BatchExecute [tx_to g], BuildTransaction g],
            Inr [makeTransaction e safe g kt code None ''ETH'' 18 False False None])"
proof -
  have "addMockSafeCreationTx e safe = [g]" "tx_data g = None" "tx_gasPrice g = 0"
    "\<not> tokenHelpers_isTokenTransfer e None (tx_value g)"
    using assms(1) by (simp_all add: creation_seed_def)
  then show ?thesis
    using normalize_single [OF _ _ _ assms(2), where safe = safe and kt = kt] by simp
qed

lemma sample_seed: "creation_seed sample_env ''0xSafe'' (creation_record ''0xSafe'')"
  by (simp add: creation_seed_def sample_simps)

lemma sample_seed_code: "getCode sample_env (tx_to (creation_record ''0xSafe'')) = Inr (Some ''0x'')"
  by (simp add: sample_simps)

subsection \<open>The sample history, normalized\<close>

lemmas record_simps =
  seed_record_def plain_record_def cancel_record_def multisend_record_def sample_history_def

lemma sample_normalized:
  "normalizeTransactions sample_env ''0xSafe'' sample_tokens (creation_record ''0xSafe'' # sample_history) =
     ([BatchExecute [[], ''0xBob'', ''0xSafe'', ''0xMulti''],
       BuildTransaction (creation_record ''0xSafe''), BuildTransaction plain_transfer,
       BuildTransaction cancel_tx, BuildTransaction multisend_tx],
      Inr [seed_record, plain_record, cancel_record, multisend_record])"
  by (simp add: normalizeTransactions_def batchTxTokenRequest_def codeRequest_def normalizeAll_def
      record_simps model_simps sample_simps)

lemma sample_record_groups:
  "\<not> cancellationTx seed_record" "\<not> cancellationTx plain_record"
  "cancellationTx cancel_record" "\<not> cancellationTx multisend_record"
  by (simp_all add: record_simps makeTransaction_def model_simps sample_simps)

lemma sample_seed_normalized:
  "normalizeTransactions sample_env ''0xSafe'' sample_tokens [creation_record ''0xSafe''] =
     ([BatchExecute [[]], BuildTransaction (creation_record ''0xSafe'')], Inr [seed_record])"
  by (simp add: normalizeTransactions_def batchTxTokenRequest_def codeRequest_def normalizeAll_def
      record_simps model_simps sample_simps)

lemma sample_seed_list: "addMockSafeCreationTx sample_env ''0xSafe'' = [creation_record ''0xSafe'']"
  by (simp add: sample_env_def)

subsection \<open>C3: the not-modified short circuit\<close>

text \<open>
  The ETag of the response is compared with the stored one only under the guard
  \<^verbatim>\<open>response.data.count > 0\<close> of line 220. A response with count zero that carries
  the stored ETag is not a short circuit: the call goes on to the batch code lookup and
  normalizes the seed record.
\<close>

theorem etag_short_circuit_counterexample:
  "returned (loadOutgoingTransactions sample_env (JString ''e1'') ''0xSafe'' sample_tokens
       (Response 0 [] (Some ''e1'')))
     = Inr (Some (groupTxs ''0xSafe'' [seed_record]))
   \<and> trace (loadOutgoingTransactions sample_env (JString ''e1'') ''0xSafe'' sample_tokens
       (Response 0 [] (Some ''e1'')))
     = [HttpGet ''/safes/0xSafe/transactions/'' (Some (JString ''e1'')),
        BatchExecute [[]],
        BuildTransaction (creation_record ''0xSafe'')]"
proof -
  have f: "fetchHistory sample_env (JString ''e1'') ''0xSafe'' (Response 0 [] (Some ''e1''))
             = Proceed (JString ''e1'') [] [creation_record ''0xSafe'']"
    by (simp add: fetchHistory_def sample_seed_list)
  have n: "snd (normalizeTransactions sample_env ''0xSafe'' sample_tokens [creation_record ''0xSafe''])
             = Inr [seed_record]"
    by (simp add: sample_seed_normalized)
  have u: "buildTxServiceUrl sample_env ''0xSafe'' = ''/safes/0xSafe/transactions/''"
    by (simp add: sample_env_def)
  show ?thesis
    using load_proceed [OF f n] sample_seed_normalized u by (simp add: etag_truthy_def)
qed

text \<open>
  C3, as amended: when the response has a positive count and carries the ETag stored by
  a previous fetch, or the request fails with status 304, the call returns \<^verbatim>\<open>undefined\<close>,
  leaves the stored ETag as it was, and its only effect is the request itself: no batch
  code lookup and no normalization.
\<close>

theorem etag_short_circuit:
  assumes "(http = Response count results etag \<and> 0 < count \<and> prev = header_etag etag)
           \<or> http = RequestError (Some 304)"
  shows "loadOutgoingTransactions e prev safe kt http =
           \<lparr>etag_after = prev,
            trace = [HttpGet (buildTxServiceUrl e safe) (if etag_truthy prev then Some prev else None)],
            returned = Inr None\<rparr>"
  using assms by (auto simp: loadOutgoingTransactions_def fetchHistory_def Let_def)

theorem etag_short_circuit_witness:
  "loadOutgoingTransactions sample_env (JString ''e1'') ''0xSafe'' sample_tokens
       (Response 3 [plain_transfer, cancel_tx, multisend_tx] (Some ''e1'')) =
     \<lparr>etag_after = JString ''e1'',
      trace = [HttpGet ''/safes/0xSafe/transactions/'' (Some (JString ''e1''))],
      returned = Inr None\<rparr>
   \<and> loadOutgoingTransactions sample_env JNull ''0xSafe'' sample_tokens (RequestError (Some 304)) =
     \<lparr>etag_after = JNull,
      trace = [HttpGet ''/safes/0xSafe/transactions/'' None],
      returned = Inr None\<rparr>"
  using etag_short_circuit [of "Response 3 [plain_transfer, cancel_tx, multisend_tx] (Some ''e1'')"
      3 "[plain_transfer, cancel_tx, multisend_tx]" "Some ''e1''" "JString ''e1''" sample_env "''0xSafe''" sample_tokens]
    etag_short_circuit [of "RequestError (Some 304)" 0 "[]" None JNull sample_env "''0xSafe''" sample_tokens]
  by (simp add: header_etag_def etag_truthy_def sample_env_def)

subsection \<open>C7: the seed record of an empty history\<close>

text \<open>
  C7: for a wallet whose remote history holds no transaction (a response with count
  zero), the call still returns an output, and the outgoing group of the wallet holds
  one record, the normalized synthetic creation record; the cancel group is absent. The
  seed record is as \<open>creation_seed\<close> models it, and its code lookup resolves.
\<close>

theorem genesis_seed_in_outgoing:
  assumes "creation_seed e safe g" and "getCode e (tx_to g) = Inr code"
  shows "\<exists>r. buildTransactionFrom e safe g kt code = Inr r
           \<and> creationTx r = Some True
           \<and> returned (loadOutgoingTransactions e prev safe kt (Response 0 results etag))
               = Inr (Some (groupTxs safe [r]))
           \<and> outgoing (groupTxs safe [r]) safe = Some (Some [r])
           \<and> cancel (groupTxs safe [r]) safe = Some None"
proof -
  let ?r = "makeTransaction e safe g kt code None ''ETH'' 18 False False None"
  have b: "buildTransactionFrom e safe g kt code = Inr ?r" by (rule build_seed [OF assms(1)])
  have c: "creationTx ?r = Some True" "\<not> cancellationTx ?r"
    using assms(1) by (simp_all add: makeTransaction_def creation_seed_def is_cancellationTx_def)
  have f: "fetchHistory e prev safe (Response 0 results etag)
             = Proceed prev [] (addMockSafeCreationTx e safe)"
    by (simp add: fetchHistory_def)
  have n: "snd (normalizeTransactions e safe kt (addMockSafeCreationTx e safe)) = Inr [?r]"
    by (simp add: normalize_seed [OF assms])
  have l: "returned (loadOutgoingTransactions e prev safe kt (Response 0 results etag))
             = Inr (Some (groupTxs safe [?r]))"
    by (simp add: load_proceed [OF f n])
  show ?thesis
    using b c l by (intro exI [of _ ?r]) (simp add: groupTxs_outgoing groupTxs_cancel)
qed

theorem genesis_seed_in_outgoing_witness:
  "creation_seed sample_env ''0xSafe'' (creation_record ''0xSafe'')
   \<and> getCode sample_env (tx_to (creation_record ''0xSafe'')) = Inr (Some ''0x'')
   \<and> (\<exists>r. buildTransactionFrom sample_env ''0xSafe'' (creation_record ''0xSafe'') sample_tokens (Some ''0x'') = Inr r
           \<and> creationTx r = Some True
           \<and> returned (loadOutgoingTransactions sample_env JNull ''0xSafe'' sample_tokens (Response 0 [] (Some ''e1'')))
               = Inr (Some (groupTxs ''0xSafe'' [r]))
           \<and> outgoing (groupTxs ''0xSafe'' [r]) ''0xSafe'' = Some (Some [r])
           \<and> cancel (groupTxs ''0xSafe'' [r]) ''0xSafe'' = Some None)"
  using genesis_seed_in_outgoing [OF sample_seed sample_seed_code, of sample_tokens JNull "[]" "Some ''e1''"]
    sample_seed sample_seed_code
  by simp

subsection \<open>C8: a failed history request\<close>



subsection \<open>C9: a response with count zero\<close>



subsection \<open>C10: an absent group\<close>

text \<open>
  C10: each of the two maps of the result has exactly one key, the wallet address; when
  every normalized record falls into one group, the other map sends the address to
  \<^verbatim>\<open>undefined\<close> (\<open>Some None\<close>), not to an empty list.
\<close>

theorem single_group_leaves_other_undefined:
  assumes "fetchHistory e prev safe http = Proceed etag logged transactions"
      and "snd (normalizeTransactions e safe kt transactions) = Inr recs"
  shows "returned (loadOutgoingTransactions e prev safe kt http) = Inr (Some (groupTxs safe recs))
         \<and> dom (outgoing (groupTxs safe recs)) = {safe}
         \<and> dom (cancel (groupTxs safe recs)) = {safe}
         \<and> ((\<forall>r\<in>set recs. \<not> cancellationTx r) \<longrightarrow> cancel (groupTxs safe recs) safe = Some None)
         \<and> ((\<forall>r\<in>set recs. cancellationTx r) \<longrightarrow> outgoing (groupTxs safe recs) safe = Some None)"
proof -
  have a: "(\<forall>r\<in>set recs. \<not> cancellationTx r) \<Longrightarrow> filter cancellationTx recs = []"
    by (simp add: filter_empty_conv)
  have b: "(\<forall>r\<in>set recs. cancellationTx r) \<Longrightarrow> filter (\<lambda>r. \<not> cancellationTx r) recs = []"
    by (simp add: filter_empty_conv)
  show ?thesis
    using load_proceed [OF assms] a b
    by (simp add: groupTxs_dom groupTxs_cancel groupTxs_outgoing)
qed


text \<open>A history whose only record is a cancellation, with collaborators that seed nothing.\<close>

lemma seedless_cancel:
  "normalizeTransactions (sample_env\<lparr>addMockSafeCreationTx := (\<lambda>safeAddress. [])\<rparr>) ''0xSafe'' sample_tokens [cancel_tx] =
     ([BatchExecute [''0xSafe''], BuildTransaction cancel_tx], Inr [cancel_record])"
  by (simp add: normalizeTransactions_def batchTxTokenRequest_def codeRequest_def normalizeAll_def
      record_simps makeTransaction_def model_simps sample_simps)

theorem single_group_leaves_other_undefined_witness:
  "fetchHistory sample_env JNull ''0xSafe'' (Response 0 [] None)
     = Proceed JNull [] [creation_record ''0xSafe'']
   \<and> snd (normalizeTransactions sample_env ''0xSafe'' sample_tokens [creation_record ''0xSafe''])
     = Inr [seed_record]
   \<and> \<not> cancellationTx seed_record
   \<and> returned (loadOutgoingTransactions sample_env JNull ''0xSafe'' sample_tokens (Response 0 [] None))
     = Inr (Some (groupTxs ''0xSafe'' [seed_record]))
   \<and> dom (outgoing (groupTxs ''0xSafe'' [seed_record])) = {''0xSafe''}
   \<and> dom (cancel (groupTxs ''0xSafe'' [seed_record])) = {''0xSafe''}
   \<and> cancel (groupTxs ''0xSafe'' [seed_record]) ''0xSafe'' = Some None
   \<and> fetchHistory (sample_env\<lparr>addMockSafeCreationTx := (\<lambda>safeAddress. [])\<rparr>) JNull ''0xSafe''
       (Response 1 [cancel_tx] None)
     = Proceed JUndefined [] [cancel_tx]
   \<and> snd (normalizeTransactions (sample_env\<lparr>addMockSafeCreationTx := (\<lambda>safeAddress. [])\<rparr>) ''0xSafe''
       sample_tokens [cancel_tx])
     = Inr [cancel_record]
   \<and> cancellationTx cancel_record
   \<and> outgoing (groupTxs ''0xSafe'' [cancel_record]) ''0xSafe'' = Some None"
proof -
  have f1: "fetchHistory sample_env JNull ''0xSafe'' (Response 0 [] None)
              = Proceed JNull [] [creation_record ''0xSafe'']"
    by (simp add: fetchHistory_def sample_env_def)
  have n1: "snd (normalizeTransactions sample_env ''0xSafe'' sample_tokens [creation_record ''0xSafe''])
              = Inr [seed_record]"
    by (simp add: sample_seed_normalized)
  have f2: "fetchHistory (sample_env\<lparr>addMockSafeCreationTx := (\<lambda>safeAddress. [])\<rparr>) JNull ''0xSafe''
              (Response 1 [cancel_tx] None) = Proceed JUndefined [] [cancel_tx]"
    by (simp add: fetchHistory_def header_etag_def)
  have n2: "snd (normalizeTransactions (sample_env\<lparr>addMockSafeCreationTx := (\<lambda>safeAddress. [])\<rparr>) ''0xSafe''
              sample_tokens [cancel_tx]) = Inr [cancel_record]"
    by (simp add: seedless_cancel)
  show ?thesis
    using single_group_leaves_other_undefined [OF f1 n1] single_group_leaves_other_undefined [OF f2 n2]
      f1 n1 f2 n2 sample_record_groups
    by simp
qed

subsection \<open>C6: cancellations and the order within the groups\<close>

text \<open>
  C6: a record sent to the wallet itself, with value zero and no call data, is normalized
  with \<open>cancellationTx\<close> true; the normalized records correspond to the collected list
  position by position; the cancel group is the sublist of the cancellations and the
  outgoing group the sublist of the others, each in the order of the input (\<open>filter\<close>
  keeps the order); and every cancellation is a member of the cancel group.
\<close>

theorem cancellation_grouped_in_order:
  "(buildTransactionFrom e safe tx kt code = Inr r \<and> sameAddress e (tx_to tx) safe
      \<and> tx_value tx = 0 \<and> \<not> truthy (tx_data tx) \<longrightarrow> cancellationTx r)
   \<and> (fetchHistory e prev safe http = Proceed etag logged transactions
      \<and> snd (normalizeTransactions e safe kt transactions) = Inr recs \<longrightarrow>
        returned (loadOutgoingTransactions e prev safe kt http) = Inr (Some (groupTxs safe recs))
        \<and> list_all2 (\<lambda>tx r. \<exists>code. getCode e (tx_to tx) = Inr code
                \<and> buildTransactionFrom e safe tx kt code = Inr r) transactions recs
        \<and> cancel (groupTxs safe recs) safe =
            Some (if filter cancellationTx recs = [] then None else Some (filter cancellationTx recs))
        \<and> outgoing (groupTxs safe recs) safe =
            Some (if filter (\<lambda>r. \<not> cancellationTx r) recs = [] then None
                  else Some (filter (\<lambda>r. \<not> cancellationTx r) recs))
        \<and> (\<forall>r\<in>set recs. cancellationTx r \<longrightarrow>
              (\<exists>g. cancel (groupTxs safe recs) safe = Some (Some g) \<and> r \<in> set g)))"
proof (intro conjI impI)
  assume "buildTransactionFrom e safe tx kt code = Inr r \<and> sameAddress e (tx_to tx) safe
      \<and> tx_value tx = 0 \<and> \<not> truthy (tx_data tx)"
  then show "cancellationTx r"
    using build_fields(2) [of e safe tx kt code r] by (simp add: is_cancellationTx_def)
next
  assume a: "fetchHistory e prev safe http = Proceed etag logged transactions
      \<and> snd (normalizeTransactions e safe kt transactions) = Inr recs"
  then show "returned (loadOutgoingTransactions e prev safe kt http) = Inr (Some (groupTxs safe recs))"
    using load_proceed [of e prev safe http etag logged transactions kt recs] by simp
  from a show "list_all2 (\<lambda>tx r. \<exists>code. getCode e (tx_to tx) = Inr code
                \<and> buildTransactionFrom e safe tx kt code = Inr r) transactions recs"
    using normalizeTransactions_Inr [of e safe kt transactions recs] by simp
  show "cancel (groupTxs safe recs) safe =
            Some (if filter cancellationTx recs = [] then None else Some (filter cancellationTx recs))"
    by (rule groupTxs_cancel)
  show "outgoing (groupTxs safe recs) safe =
            Some (if filter (\<lambda>r. \<not> cancellationTx r) recs = [] then None
                  else Some (filter (\<lambda>r. \<not> cancellationTx r) recs))"
    by (rule groupTxs_outgoing)
  show "\<forall>r\<in>set recs. cancellationTx r \<longrightarrow>
              (\<exists>g. cancel (groupTxs safe recs) safe = Some (Some g) \<and> r \<in> set g)"
  proof (intro ballI impI)
    fix x assume "x \<in> set recs" "cancellationTx x"
    then have m: "x \<in> set (filter cancellationTx recs)" by simp
    then have "filter cancellationTx recs \<noteq> []" by (auto simp: filter_empty_conv)
    with m show "\<exists>g. cancel (groupTxs safe recs) safe = Some (Some g) \<and> x \<in> set g"
      by (simp add: groupTxs_cancel)
  qed
qed

lemma build_cancel_record:
  "buildTransactionFrom sample_env ''0xSafe'' cancel_tx sample_tokens (Some ''0x'') = Inr cancel_record"
  by (simp add: record_simps model_simps sample_simps)

theorem cancellation_grouped_in_order_witness:
  "buildTransactionFrom sample_env ''0xSafe'' cancel_tx sample_tokens (Some ''0x'') = Inr cancel_record
   \<and> sameAddress sample_env (tx_to cancel_tx) ''0xSafe'' \<and> tx_value cancel_tx = 0
   \<and> \<not> truthy (tx_data cancel_tx)
   \<and> cancellationTx cancel_record
   \<and> fetchHistory sample_env JNull ''0xSafe'' (Response 3 sample_history (Some ''e1''))
       = Proceed (JString ''e1'') [] (creation_record ''0xSafe'' # sample_history)
   \<and> snd (normalizeTransactions sample_env ''0xSafe'' sample_tokens (creation_record ''0xSafe'' # sample_history))
       = Inr [seed_record, plain_record, cancel_record, multisend_record]
   \<and> returned (loadOutgoingTransactions sample_env JNull ''0xSafe'' sample_tokens
        (Response 3 sample_history (Some ''e1'')))
       = Inr (Some (groupTxs ''0xSafe'' [seed_record, plain_record, cancel_record, multisend_record]))
   \<and> outgoing (groupTxs ''0xSafe'' [seed_record, plain_record, cancel_record, multisend_record]) ''0xSafe''
       = Some (Some [seed_record, plain_record, multisend_record])
   \<and> cancel (groupTxs ''0xSafe'' [seed_record, plain_record, cancel_record, multisend_record]) ''0xSafe''
       = Some (Some [cancel_record])"
proof -
  have h1: "sameAddress sample_env (tx_to cancel_tx) ''0xSafe''" "tx_value cancel_tx = 0"
    "\<not> truthy (tx_data cancel_tx)"
    by (simp_all add: sample_simps truthy_def)
  have f: "fetchHistory sample_env JNull ''0xSafe'' (Response 3 sample_history (Some ''e1''))
       = Proceed (JString ''e1'') [] (creation_record ''0xSafe'' # sample_history)"
    by (simp add: fetchHistory_def header_etag_def sample_env_def)
  have n: "snd (normalizeTransactions sample_env ''0xSafe'' sample_tokens (creation_record ''0xSafe'' # sample_history))
       = Inr [seed_record, plain_record, cancel_record, multisend_record]"
    by (simp add: sample_normalized)
  show ?thesis
    using cancellation_grouped_in_order [of sample_env "''0xSafe''" cancel_tx sample_tokens "Some ''0x''"
        cancel_record JNull "Response 3 sample_history (Some ''e1'')" "JString ''e1''" "[]"
        "creation_record ''0xSafe'' # sample_history"
        "[seed_record, plain_record, cancel_record, multisend_record]"]
      build_cancel_record h1 f n sample_record_groups
    by simp
qed

subsection \<open>C5: the refund and the format of its fee\<close>


















end
